theory Spec2Isabelle
  imports Main "HOL-Library.AList" "HOL-Library.Char_ord" "HOL-Library.List_Lexorder"
begin

section \<open>Python values used by get_emails.py\<close>

text \<open>
  The exceptions that the modelled functions can raise. A function that can raise returns
  \<open>error + 'a\<close>, with \<open>Inl\<close> for the exception.
\<close>

datatype error = AttributeError | IndexError | KeyError | ValueError | RequestException | OSError

subsection \<open>Strings\<close>

text \<open>
  Strings are lists of characters. The addresses, timestamps and hexadecimal digests that
  the program handles are ASCII, and \<open>str.lower\<close>, \<open>str.title\<close> are modelled on ASCII
  letters; every other character is left as it is.
\<close>

definition ascii_uppercase :: string where
  "ascii_uppercase = ''ABCDEFGHIJKLMNOPQRSTUVWXYZ''"

definition ascii_lowercase :: string where
  "ascii_lowercase = ''abcdefghijklmnopqrstuvwxyz''"

definition is_upper :: "char \<Rightarrow> bool" where
  "is_upper c = (c \<in> set ascii_uppercase)"

definition is_lower :: "char \<Rightarrow> bool" where
  "is_lower c = (c \<in> set ascii_lowercase)"

definition lower_char :: "char \<Rightarrow> char" where
  "lower_char c = (case map_of (zip ascii_uppercase ascii_lowercase) c of None \<Rightarrow> c | Some d \<Rightarrow> d)"

definition upper_char :: "char \<Rightarrow> char" where
  "upper_char c = (case map_of (zip ascii_lowercase ascii_uppercase) c of None \<Rightarrow> c | Some d \<Rightarrow> d)"

definition lower :: "string \<Rightarrow> string" where
  "lower s = map lower_char s"

text \<open>
  \<open>str.title()\<close>: a letter that follows a letter is lowercased, a letter that starts a run
  of letters is uppercased.
\<close>

fun title_from :: "bool \<Rightarrow> string \<Rightarrow> string" where
  "title_from previous_is_cased [] = []"
| "title_from previous_is_cased (c # cs) =
     (if is_lower c then (if previous_is_cased then c else upper_char c) # title_from True cs
      else if is_upper c then (if previous_is_cased then lower_char c else c) # title_from True cs
      else c # title_from False cs)"

definition title :: "string \<Rightarrow> string" where
  "title s = title_from False s"

text \<open>
  \<open>s.split(sep)\<close> for a one-character separator: the pieces between the occurrences of
  the separator, never an empty list.
\<close>

fun split_str :: "char \<Rightarrow> string \<Rightarrow> string list" where
  "split_str sep [] = [[]]"
| "split_str sep (c # cs) =
     (if c = sep then [] # split_str sep cs
      else (case split_str sep cs of
              [] \<Rightarrow> [[c]]
            | w # ws \<Rightarrow> (c # w) # ws))"

text \<open>\<open>sep.join(parts)\<close>.\<close>

fun join :: "string \<Rightarrow> string list \<Rightarrow> string" where
  "join sep [] = []"
| "join sep [x] = x"
| "join sep (x # y # ys) = x @ sep @ join sep (y # ys)"

definition newline :: char where
  "newline = CHR 0x0A"

subsection \<open>The data classes\<close>

text \<open>
  The dictionary that \<open>GeminiParser.parse_email\<close> returns, restricted to the keys the
  prompt asks for. \<open>None\<close> is an absent key; the two flags are booleans and every other
  value is a string.
\<close>

record parsed =
  is_lead_p :: "bool option"
  lead_status_p :: "string option"
  has_meeting_p :: "bool option"
  subject_p :: "string option"
  date_p :: "string option"
  start_time_p :: "string option"
  meeting_type_p :: "string option"
  action_items_p :: "string option"
  deadline_p :: "string option"

definition empty_parsed :: parsed where
  "empty_parsed = \<lparr>is_lead_p = None, lead_status_p = None, has_meeting_p = None,
     subject_p = None, date_p = None, start_time_p = None, meeting_type_p = None,
     action_items_p = None, deadline_p = None\<rparr>"

text \<open>Truthiness, as \<open>if x\<close> and \<open>not x\<close> read a value.\<close>

definition truthy_dict :: "parsed option \<Rightarrow> bool" where
  "truthy_dict p = (case p of None \<Rightarrow> False | Some d \<Rightarrow> d \<noteq> empty_parsed)"

definition truthy_flag :: "bool option \<Rightarrow> bool" where
  "truthy_flag b = (b = Some True)"

definition truthy_str :: "string option \<Rightarrow> bool" where
  "truthy_str s = (case s of None \<Rightarrow> False | Some t \<Rightarrow> t \<noteq> [])"

text \<open>\<open>d.get(key, default)\<close> on a string-valued key.\<close>

definition get_or :: "string option \<Rightarrow> string \<Rightarrow> string" where
  "get_or v dflt = (case v of None \<Rightarrow> dflt | Some s \<Rightarrow> s)"

record EmailData =
  id_email :: string
  sender_name :: string
  sender_email :: string
  subject :: string
  received :: string
  body_preview :: string
  is_lead :: bool
  parsed_data :: "parsed option"
  calendar_event_id :: "string option"

record OpportunityData =
  id_opp :: string
  contact_name :: string
  company :: string
  email :: string
  phone :: string
  opportunity_title :: string
  lead_status :: string
  notes_opp :: string
  last_contacted :: string
  folder_link :: "string option"

subsection \<open>The report workbook\<close>

text \<open>
  A cell holds a string or nothing, a row is the list of its cells, a sheet is the list of
  its rows with the header first. The workbook has the three named sheets, each of which
  may be missing. Styling changes no cell value and is left out.
\<close>

type_synonym cell = "string option"
type_synonym row = "cell list"
type_synonym sheet = "row list"

record workbook =
  opportunities_master :: "sheet option"
  interaction_log :: "sheet option"
  all_emails_log :: "sheet option"

text \<open>
  \<open>row[i]\<close> on the tuples of \<open>iter_rows(values_only=True)\<close>, which are padded with
  \<open>None\<close> to the width of the sheet (the sheets of this program are at least as wide as
  the columns it reads).
\<close>

definition row_get :: "row \<Rightarrow> nat \<Rightarrow> cell" where
  "row_get r i = (if i < length r then r ! i else None)"

text \<open>How an f-string renders a cell value.\<close>

definition str_of_cell :: "cell \<Rightarrow> string" where
  "str_of_cell c = (case c of None \<Rightarrow> ''None'' | Some s \<Rightarrow> s)"

section \<open>The collaborators outside the program\<close>

text \<open>The JSON of one message in the answer of the Graph API; \<open>None\<close> is an absent key.\<close>

record msg =
  msg_id :: "string option"
  msg_subject :: "string option"
  msg_from_name :: "string option"
  msg_from_address :: "string option"
  msg_receivedDateTime :: "string option"
  msg_body_content :: "string option"

text \<open>
  The answer to a POST of an event: the request raised, or it returned a status code and
  a JSON body with or without the key \<open>id\<close>.
\<close>

datatype post_response = PostRaised | Status nat "string option"

text \<open>
  What the file system does to one call of \<open>save_pickle\<close>: \<open>open(filename, 'wb')\<close> raises,
  \<open>open\<close> succeeds and \<open>pickle.dump\<close> raises, or both succeed.
\<close>

datatype io_outcome = OpenRaises | DumpRaises | Written

text \<open>
  The hash function, the language model, the Graph API, the date arithmetic of the
  standard library and the lock on the report file are parameters of the model:
  \<^item> \<open>md5_hexdigest s\<close> is \<open>hashlib.md5(s.encode()).hexdigest()\<close>;
  \<^item> \<open>gemini_json body subject\<close> is the parsed answer of the model to the prompt of
    \<open>parse_email\<close>, \<open>None\<close> when the call or the JSON parsing raised;
  \<^item> \<open>gemini_summary history\<close> is what \<open>summarize_interactions\<close> returns;
  \<^item> \<open>graph_create_folder name\<close> is the \<open>webUrl\<close> of the folder that the POST created,
    \<open>None\<close> when the request failed;
  \<^item> \<open>graph_messages\<close> is the list of messages that the GET of a cycle returns, or the
    exception it raised;
  \<^item> \<open>graph_post_event n\<close> is the answer to the POST of an event that follows \<open>n\<close>
    earlier ones;
  \<^item> \<open>strptime_plus_hour s\<close> is \<open>s\<close> parsed with \<open>%Y-%m-%dT%H:%M:%S\<close>, moved one hour
    on and printed in the same format, \<open>None\<close> when \<open>strptime\<close> raises \<open>ValueError\<close>;
  \<^item> \<open>report_writable\<close> tells whether \<open>wb.save\<close> succeeds;
  \<^item> \<open>pickle_io filename n\<close> is what the file system does to the save of \<open>filename\<close>
    that follows \<open>n\<close> earlier saves of pickle files.
\<close>

record env =
  md5_hexdigest :: "string \<Rightarrow> string"
  gemini_json :: "string \<Rightarrow> string \<Rightarrow> parsed option"
  gemini_summary :: "string \<Rightarrow> string"
  graph_create_folder :: "string \<Rightarrow> string option"
  graph_messages :: "error + msg list"
  graph_post_event :: "nat \<Rightarrow> post_response"
  strptime_plus_hour :: "string \<Rightarrow> string option"
  report_writable :: bool
  pickle_io :: "string \<Rightarrow> nat \<Rightarrow> io_outcome"

record event_payload =
  subject_ev :: string
  start_dateTime :: string
  end_dateTime :: string
  attendee_address :: string
  attendee_name :: string

text \<open>The calls that leave the process, in the order they are made.\<close>

datatype effect =
    CreateFolder string
  | SummarizeInteractions string
  | PostEvent event_payload
  | SavePickle string "string set"
  | SaveWorkbook workbook

definition parse_email :: "env \<Rightarrow> string \<Rightarrow> string \<Rightarrow> parsed option" where
  "parse_email env email_body email_subject = gemini_json env (take 1500 email_body) email_subject"

definition summarize_interactions :: "env \<Rightarrow> string \<Rightarrow> string" where
  "summarize_interactions env interaction_history = gemini_summary env interaction_history"

definition create_folder_for_lead :: "env \<Rightarrow> string \<Rightarrow> string option" where
  "create_folder_for_lead env opportunity_id = graph_create_folder env (''Lead-'' @ opportunity_id)"

section \<open>ExcelReportGenerator.get_interaction_history\<close>

definition history_line :: "row \<Rightarrow> string" where
  "history_line r =
     ''On '' @ str_of_cell (row_get r 6) @ '', a meeting was logged: '' @ str_of_cell (row_get r 2)"

definition get_interaction_history :: "workbook option \<Rightarrow> string \<Rightarrow> string" where
  "get_interaction_history report opportunity_id =
     (case report of
        None \<Rightarrow> []
      | Some wb \<Rightarrow>
          (case interaction_log wb of
             None \<Rightarrow> []
           | Some log_ws \<Rightarrow>
               join [newline]
                 (map history_line
                    (filter (\<lambda>r. opportunity_id = [] \<or> row_get r 0 = Some opportunity_id)
                       (drop 1 log_ws)))))"

section \<open>LeadTracker.generate_opportunities\<close>

text \<open>
  The dictionary of opportunities keeps insertion order; an assignment to a present key
  replaces the value in place.
\<close>

type_synonym opportunities = "(string \<times> OpportunityData) list"

text \<open>
  \<open>opportunities.get(opp_id, {})\<close> is the stored \<open>OpportunityData\<close> when the key is
  present and the empty dictionary otherwise. The call \<open>.get(field, default)\<close> that
  follows is a method of dictionaries: on the empty dictionary it returns the default, on
  an \<open>OpportunityData\<close> (a plain data class, which has no such method) it raises
  \<open>AttributeError\<close>.
\<close>

datatype got = GotOpportunity OpportunityData | GotEmptyDict

definition opportunities_get :: "opportunities \<Rightarrow> string \<Rightarrow> got" where
  "opportunities_get opps opp_id =
     (case map_of opps opp_id of None \<Rightarrow> GotEmptyDict | Some d \<Rightarrow> GotOpportunity d)"

definition method_get :: "got \<Rightarrow> 'a \<Rightarrow> error + 'a" where
  "method_get g dflt = (case g of GotEmptyDict \<Rightarrow> Inr dflt | GotOpportunity d \<Rightarrow> Inl AttributeError)"

text \<open>The identifier of line 443.\<close>

definition opportunity_id_of :: "env \<Rightarrow> EmailData \<Rightarrow> string" where
  "opportunity_id_of env e = take 8 (md5_hexdigest env (lower (sender_email e)))"

text \<open>
  \<open>email.sender_email.split('@')[1].split('.')[0].title()\<close>: the index \<open>[1]\<close> raises
  when the address has no \<open>@\<close>; the index \<open>[0]\<close> never does.
\<close>

definition company_of :: "string \<Rightarrow> error + string" where
  "company_of address =
     (case split_str (CHR ''@'') address of
        _ # domain # _ \<Rightarrow>
          (case split_str (CHR ''.'') domain of
             [] \<Rightarrow> Inl IndexError
           | first # _ \<Rightarrow> Inr (title first))
      | _ \<Rightarrow> Inl IndexError)"

text \<open>
  The condition of line 446, with the short circuit of \<open>or\<close>: the comparison is
  evaluated only when the identifier is already in the dictionary.
\<close>

definition is_more_recent :: "opportunities \<Rightarrow> string \<Rightarrow> EmailData \<Rightarrow> error + bool" where
  "is_more_recent opps opp_id e =
     (if map_of opps opp_id = None then Inr True
      else (case method_get (opportunities_get opps opp_id) [] of
              Inl err \<Rightarrow> Inl err
            | Inr stored \<Rightarrow> Inr (stored < received e)))"

text \<open>
  One pass of the loop body, from the opportunities and the effects so far to the new
  ones. The effects performed before an exception stay performed.
\<close>

definition generate_step ::
  "env \<Rightarrow> workbook option \<Rightarrow> EmailData \<Rightarrow> opportunities \<Rightarrow> effect list
     \<Rightarrow> (error + opportunities) \<times> effect list" where
  "generate_step env report e opps effs =
     (let opp_id = opportunity_id_of env e in
      case is_more_recent opps opp_id e of
        Inl err \<Rightarrow> (Inl err, effs)
      | Inr enter \<Rightarrow>
          if \<not> enter then (Inr opps, effs)
          else
            (let is_new = (map_of opps opp_id = None) in
             case (if is_new then Inr (create_folder_for_lead env opp_id)
                   else method_get (opportunities_get opps opp_id) (Some [])) of
               Inl err \<Rightarrow> (Inl err, effs)
             | Inr link \<Rightarrow>
                 (let effs1 = (if is_new then effs @ [CreateFolder opp_id] else effs);
                      history = get_interaction_history report opp_id;
                      summarise = (3 < length (split_str newline history));
                      notes_v = (if summarise then summarize_interactions env history else []);
                      effs2 = (if summarise then effs1 @ [SummarizeInteractions history] else effs1)
                  in case company_of (sender_email e) of
                       Inl err \<Rightarrow> (Inl err, effs2)
                     | Inr company_v \<Rightarrow>
                         (Inr (AList.update opp_id
                                 \<lparr>id_opp = opp_id, contact_name = sender_name e,
                                  company = company_v, email = sender_email e, phone = [],
                                  opportunity_title = ''Opportunity with '' @ sender_name e,
                                  lead_status =
                                    (if truthy_dict (parsed_data e)
                                     then get_or (lead_status_p (the (parsed_data e))) ''New Lead''
                                     else ''New Lead''),
                                  notes_opp = notes_v, last_contacted = received e,
                                  folder_link = link\<rparr> opps),
                          effs2))))"

fun generate_loop ::
  "env \<Rightarrow> workbook option \<Rightarrow> EmailData list \<Rightarrow> opportunities \<Rightarrow> effect list
     \<Rightarrow> (error + opportunities) \<times> effect list" where
  "generate_loop env report [] opps effs = (Inr opps, effs)"
| "generate_loop env report (e # es) opps effs =
     (case generate_step env report e opps effs of
        (Inl err, effs') \<Rightarrow> (Inl err, effs')
      | (Inr opps', effs') \<Rightarrow> generate_loop env report es opps' effs')"

definition generate_opportunities ::
  "env \<Rightarrow> workbook option \<Rightarrow> EmailData list \<Rightarrow> (error + opportunities) \<times> effect list" where
  "generate_opportunities env report emails = generate_loop env report emails [] []"

section \<open>FileManager\<close>

text \<open>
  A pickle file on disk: missing, holding a complete pickle of a set, or holding only a
  proper prefix of a pickle stream (nothing at all right after \<open>open(filename, 'wb')\<close>,
  which creates or empties the file). \<open>pickle.load\<close> raises on such a prefix.
\<close>

datatype pkl_file = Absent | Truncated | Pickled "string set"

text \<open>
  The two steps of the \<open>with\<close> statement of \<open>save_pickle\<close>, each with the exception it
  raised, if any, and the file as it leaves it: an \<open>open\<close> that raises has not touched the
  file, a \<open>dump\<close> that raises leaves a prefix of the stream.
\<close>

definition open_wb :: "io_outcome \<Rightarrow> pkl_file \<Rightarrow> error option \<times> pkl_file" where
  "open_wb io f = (if io = OpenRaises then (Some OSError, f) else (None, Truncated))"

definition pickle_dump :: "io_outcome \<Rightarrow> string set \<Rightarrow> pkl_file \<Rightarrow> error option \<times> pkl_file" where
  "pickle_dump io data f = (if io = DumpRaises then (Some OSError, Truncated) else (None, Pickled data))"

text \<open>
  \<open>save_pickle\<close> catches every exception of the two steps, logs it and returns as it does
  after a save that succeeded: the caller gets no sign of the failure.
\<close>

definition save_pickle :: "io_outcome \<Rightarrow> string set \<Rightarrow> pkl_file \<Rightarrow> pkl_file" where
  "save_pickle io data f =
     (case open_wb io f of
        (Some err, f1) \<Rightarrow> f1
      | (None, f1) \<Rightarrow> snd (pickle_dump io data f1))"

text \<open>The file as it is when the process stops after \<open>n\<close> of the two steps of \<open>save_pickle\<close>.\<close>

definition save_pickle_stopped_after :: "nat \<Rightarrow> io_outcome \<Rightarrow> string set \<Rightarrow> pkl_file \<Rightarrow> pkl_file" where
  "save_pickle_stopped_after n io data f =
     (if n = 0 then f else if n = 1 then snd (open_wb io f) else save_pickle io data f)"

text \<open>\<open>load_pickle\<close>: a missing file and a file that cannot be unpickled both give the empty set.\<close>

definition load_pickle :: "pkl_file \<Rightarrow> string set" where
  "load_pickle f = (case f of Absent \<Rightarrow> {} | Truncated \<Rightarrow> {} | Pickled data \<Rightarrow> data)"

section \<open>The state of the process and of its files\<close>

record world =
  processed_emails :: "string set"
  processed_events :: "string set"
  processed_emails_pkl :: pkl_file
  processed_events_pkl :: pkl_file
  report_file :: "workbook option"
  effects :: "effect list"

text \<open>The number of saves of pickle files made so far.\<close>

fun is_save_pickle :: "effect \<Rightarrow> bool" where
  "is_save_pickle (SavePickle filename data) = True"
| "is_save_pickle other = False"

definition pickles_saved :: "world \<Rightarrow> nat" where
  "pickles_saved w = length (filter is_save_pickle (effects w))"

section \<open>CalendarManager\<close>

definition generate_event_fingerprint :: "env \<Rightarrow> parsed \<Rightarrow> string \<Rightarrow> string" where
  "generate_event_fingerprint env p address =
     md5_hexdigest env
       (lower (get_or (subject_p p) [] @ ''|'' @ get_or (date_p p) [] @ ''|''
               @ get_or (start_time_p p) [] @ ''|'' @ address))"

definition build_event_payload :: "env \<Rightarrow> parsed \<Rightarrow> string \<Rightarrow> string \<Rightarrow> error + event_payload" where
  "build_event_payload env p address name =
     (case date_p p of
        None \<Rightarrow> Inl KeyError
      | Some d \<Rightarrow>
          (case start_time_p p of
             None \<Rightarrow> Inl KeyError
           | Some t \<Rightarrow>
               (let start_dt_str = d @ ''T'' @ t @ '':00'' in
                case strptime_plus_hour env start_dt_str of
                  None \<Rightarrow> Inl ValueError
                | Some end_dt_str \<Rightarrow>
                    Inr \<lparr>subject_ev = get_or (subject_p p) ''Meeting'',
                         start_dateTime = start_dt_str, end_dateTime = end_dt_str,
                         attendee_address = address, attendee_name = name\<rparr>)))"

fun is_post :: "effect \<Rightarrow> bool" where
  "is_post (PostEvent payload) = True"
| "is_post other = False"

definition events_posted :: "world \<Rightarrow> nat" where
  "events_posted w = length (filter is_post (effects w))"

definition create_event ::
  "env \<Rightarrow> parsed option \<Rightarrow> string \<Rightarrow> string \<Rightarrow> world \<Rightarrow> (error + string option) \<times> world" where
  "create_event env parsed_v address name w =
     (case parsed_v of
        None \<Rightarrow> (Inr None, w)
      | Some p \<Rightarrow>
          if p = empty_parsed \<or> \<not> truthy_flag (has_meeting_p p) \<or> \<not> truthy_str (date_p p)
             \<or> \<not> truthy_str (start_time_p p)
          then (Inr None, w)
          else
            (let fingerprint = generate_event_fingerprint env p address in
             if fingerprint \<in> processed_events w then (Inr (Some ''duplicate_skipped''), w)
             else
               (case build_event_payload env p address name of
                  Inl err \<Rightarrow> (Inl err, w)
                | Inr payload \<Rightarrow>
                    (let w1 = w\<lparr>effects := effects w @ [PostEvent payload]\<rparr> in
                     case graph_post_event env (events_posted w) of
                       PostRaised \<Rightarrow> (Inl RequestException, w1)
                     | Status code json_id \<Rightarrow>
                         if code = 201 then
                           (case json_id of
                              None \<Rightarrow> (Inl KeyError, w1)
                            | Some event_id \<Rightarrow>
                                (let evs = insert fingerprint (processed_events w1) in
                                 (Inr (Some event_id),
                                  w1\<lparr>processed_events := evs,
                                     processed_events_pkl :=
                                       save_pickle (pickle_io env ''processed_events.pkl'' (pickles_saved w1))
                                         evs (processed_events_pkl w1),
                                     effects := effects w1 @ [SavePickle ''processed_events.pkl'' evs]\<rparr>)))
                         else (Inr None, w1)))))"



section \<open>ExcelReportGenerator\<close>

definition opportunities_headers :: row where
  "opportunities_headers = map Some [''Opportunity ID'', ''Contact Name'', ''Company'', ''Email'',
     ''Phone'', ''Opportunity Title'', ''Lead Status'', ''Last Contacted'', ''Folder Link'', ''Notes'']"

definition interaction_headers :: row where
  "interaction_headers = map Some [''Opportunity ID'', ''Meeting Date'', ''Meeting Summary'',
     ''Action Items'', ''Deadlines'', ''Meeting Type'', ''Timestamp'']"

definition all_emails_headers :: row where
  "all_emails_headers = map Some [''Timestamp'', ''From'', ''Subject'', ''Is Lead?'']"

definition new_workbook :: workbook where
  "new_workbook = \<lparr>opportunities_master = None, interaction_log = None, all_emails_log = None\<rparr>"

definition ensure_sheets_exist :: "workbook \<Rightarrow> workbook" where
  "ensure_sheets_exist wb =
     \<lparr>opportunities_master =
        (case opportunities_master wb of None \<Rightarrow> Some [opportunities_headers] | Some ws \<Rightarrow> Some ws),
      interaction_log =
        (case interaction_log wb of None \<Rightarrow> Some [interaction_headers] | Some ws \<Rightarrow> Some ws),
      all_emails_log =
        (case all_emails_log wb of None \<Rightarrow> Some [all_emails_headers] | Some ws \<Rightarrow> Some ws)\<rparr>"

subsection \<open>Cells by row and column, counted from 1\<close>

definition max_row :: "sheet \<Rightarrow> nat" where
  "max_row ws = max 1 (length ws)"


text \<open>Writing a cell beyond the end of its row, or of the sheet, creates the cells between.\<close>

definition set_in_row :: "row \<Rightarrow> nat \<Rightarrow> cell \<Rightarrow> row" where
  "set_in_row r c v = (r @ replicate (c - length r) None)[c - 1 := v]"

definition set_cell :: "sheet \<Rightarrow> nat \<Rightarrow> nat \<Rightarrow> cell \<Rightarrow> sheet" where
  "set_cell ws r c v =
     (let padded = ws @ replicate (r - length ws) [] in
      padded[r - 1 := set_in_row (padded ! (r - 1)) c v])"

subsection \<open>The three sheets\<close>

text \<open>
  \<open>existing_opps\<close>: the dictionary from the value in column 1 to the row number, over the
  rows 2 to \<open>max_row\<close>; a later row replaces an earlier one with the same value.
\<close>

fun index_rows :: "nat \<Rightarrow> row list \<Rightarrow> (cell \<rightharpoonup> nat) \<Rightarrow> (cell \<rightharpoonup> nat)" where
  "index_rows i [] m = m"
| "index_rows i (r # rs) m = index_rows (Suc i) rs (m(row_get r 0 \<mapsto> i))"

definition existing_opps :: "sheet \<Rightarrow> (cell \<rightharpoonup> nat)" where
  "existing_opps ws = index_rows 2 (drop 1 ws) Map.empty"

definition str_of_link :: "string option \<Rightarrow> string" where
  "str_of_link l = (case l of None \<Rightarrow> ''None'' | Some u \<Rightarrow> u)"

definition new_row_data :: "OpportunityData \<Rightarrow> row" where
  "new_row_data opp_data =
     map Some [id_opp opp_data, contact_name opp_data, company opp_data, email opp_data,
       phone opp_data, opportunity_title opp_data, lead_status opp_data, last_contacted opp_data,
       ''=HYPERLINK('' @ [CHR 0x22] @ str_of_link (folder_link opp_data) @ [CHR 0x22]
         @ '', '' @ [CHR 0x22] @ ''Open Folder'' @ [CHR 0x22] @ '')'',
       notes_opp opp_data]"

definition upsert_opportunity :: "(cell \<rightharpoonup> nat) \<Rightarrow> sheet \<Rightarrow> string \<times> OpportunityData \<Rightarrow> sheet" where
  "upsert_opportunity existing ws item =
     (case item of (opp_id, opp_data) \<Rightarrow>
        (case existing (Some opp_id) of
           Some row_num \<Rightarrow>
             (let ws1 = set_cell ws row_num 7 (Some (lead_status opp_data));
                  ws2 = set_cell ws1 row_num 8 (Some (last_contacted opp_data))
              in if notes_opp opp_data \<noteq> [] then set_cell ws2 row_num 10 (Some (notes_opp opp_data))
                 else ws2)
         | None \<Rightarrow> ws @ [new_row_data opp_data]))"

definition update_opportunities_sheet :: "sheet \<Rightarrow> opportunities \<Rightarrow> sheet" where
  "update_opportunities_sheet ws opps = foldl (upsert_opportunity (existing_opps ws)) ws opps"

definition id_gen :: "env \<Rightarrow> string \<Rightarrow> string" where
  "id_gen env address = take 8 (md5_hexdigest env (lower address))"

definition logs_meeting :: "EmailData \<Rightarrow> bool" where
  "logs_meeting e =
     (case parsed_data e of
        None \<Rightarrow> False
      | Some p \<Rightarrow> p \<noteq> empty_parsed \<and> truthy_flag (has_meeting_p p))"

definition interaction_row :: "env \<Rightarrow> EmailData \<Rightarrow> row" where
  "interaction_row env e =
     (case parsed_data e of
        None \<Rightarrow> []
      | Some p \<Rightarrow>
          map Some [id_gen env (sender_email e), get_or (date_p p) [], take 1000 (body_preview e),
            get_or (action_items_p p) [], get_or (deadline_p p) [], get_or (meeting_type_p p) ''N/A'',
            received e])"

definition update_interaction_log_sheet :: "env \<Rightarrow> sheet \<Rightarrow> EmailData list \<Rightarrow> sheet" where
  "update_interaction_log_sheet env ws new_leads =
     ws @ map (interaction_row env) (filter logs_meeting new_leads)"

definition email_log_row :: "EmailData \<Rightarrow> row" where
  "email_log_row e =
     map Some [received e, sender_email e, subject e, if is_lead e then ''Yes'' else ''No'']"

definition update_all_emails_log :: "sheet \<Rightarrow> EmailData list \<Rightarrow> sheet" where
  "update_all_emails_log ws all_new_emails = ws @ map email_log_row all_new_emails"

subsection \<open>update_report\<close>

text \<open>
  The workbook is loaded or created, the sheets are updated in memory and the workbook is
  saved. An exception on the way (a missing sheet, a locked file) is logged and leaves the
  file as it was.
\<close>

definition updated_workbook ::
  "env \<Rightarrow> workbook \<Rightarrow> EmailData list \<Rightarrow> EmailData list \<Rightarrow> opportunities \<Rightarrow> error + workbook" where
  "updated_workbook env wb0 all_new_emails new_leads opps =
     (let wb = ensure_sheets_exist wb0 in
      case all_emails_log wb of
        None \<Rightarrow> Inl KeyError
      | Some all_emails_ws \<Rightarrow>
          (let wb1 = wb\<lparr>all_emails_log := Some (update_all_emails_log all_emails_ws all_new_emails)\<rparr> in
           if new_leads \<noteq> [] then
             (case opportunities_master wb1 of
                None \<Rightarrow> Inl KeyError
              | Some opps_ws \<Rightarrow>
                  (case interaction_log wb1 of
                     None \<Rightarrow> Inl KeyError
                   | Some log_ws \<Rightarrow>
                       Inr (wb1\<lparr>opportunities_master := Some (update_opportunities_sheet opps_ws opps),
                               interaction_log :=
                                 Some (update_interaction_log_sheet env log_ws new_leads)\<rparr>)))
           else Inr wb1))"

definition update_report ::
  "env \<Rightarrow> EmailData list \<Rightarrow> EmailData list \<Rightarrow> opportunities \<Rightarrow> world \<Rightarrow> world" where
  "update_report env all_new_emails new_leads opps w =
     (if all_new_emails = [] then w
      else
        (case updated_workbook env (case report_file w of None \<Rightarrow> new_workbook | Some wb \<Rightarrow> wb)
                all_new_emails new_leads opps of
           Inl err \<Rightarrow> w
         | Inr wb \<Rightarrow>
             if report_writable env
             then w\<lparr>report_file := Some wb, effects := effects w @ [SaveWorkbook wb]\<rparr>
             else w))"

section \<open>LeadTracker.process_emails\<close>

definition email_data_of :: "string \<Rightarrow> msg \<Rightarrow> EmailData" where
  "email_data_of email_id m =
     \<lparr>id_email = email_id, sender_name = get_or (msg_from_name m) [],
      sender_email = get_or (msg_from_address m) [], subject = get_or (msg_subject m) [],
      received = get_or (msg_receivedDateTime m) [], body_preview = get_or (msg_body_content m) [],
      is_lead = False, parsed_data = None, calendar_event_id = None\<rparr>"

definition accepted :: "parsed option \<Rightarrow> bool" where
  "accepted parsed_v =
     (case parsed_v of
        None \<Rightarrow> False
      | Some p \<Rightarrow> p \<noteq> empty_parsed \<and> truthy_flag (is_lead_p p))"

definition wants_meeting :: "parsed option \<Rightarrow> bool" where
  "wants_meeting parsed_v = (case parsed_v of None \<Rightarrow> False | Some p \<Rightarrow> truthy_flag (has_meeting_p p))"

text \<open>
  One pass of the loop over the fetched messages. The first component is the exception
  that the pass raised, if any: \<open>KeyError\<close> for a message without \<open>id\<close>, or what
  \<open>create_event\<close> raised. The pass that raises appends nothing and records nothing.
\<close>

definition process_message ::
  "env \<Rightarrow> msg \<Rightarrow> EmailData list \<Rightarrow> world \<Rightarrow> error option \<times> EmailData list \<times> world" where
  "process_message env m all_newly_processed w =
     (case msg_id m of
        None \<Rightarrow> (Some KeyError, all_newly_processed, w)
      | Some email_id \<Rightarrow>
          if email_id \<in> processed_emails w then (None, all_newly_processed, w)
          else
            (let email_data = email_data_of email_id m;
                 parsed_v = parse_email env (body_preview email_data) (subject email_data)
             in if accepted parsed_v then
                  (let lead_data = email_data\<lparr>is_lead := True, parsed_data := parsed_v\<rparr> in
                   if wants_meeting parsed_v then
                     (case create_event env parsed_v (sender_email lead_data) (sender_name lead_data) w of
                        (Inl err, w1) \<Rightarrow> (Some err, all_newly_processed, w1)
                      | (Inr event_id, w1) \<Rightarrow>
                          (None, all_newly_processed @ [lead_data\<lparr>calendar_event_id := event_id\<rparr>],
                           w1\<lparr>processed_emails := insert email_id (processed_emails w1)\<rparr>))
                   else
                     (None, all_newly_processed @ [lead_data],
                      w\<lparr>processed_emails := insert email_id (processed_emails w)\<rparr>))
                else
                  (None, all_newly_processed @ [email_data],
                   w\<lparr>processed_emails := insert email_id (processed_emails w)\<rparr>)))"

text \<open>The loop stops at the first exception, which the \<open>except\<close> clauses catch and log.\<close>

fun process_loop :: "env \<Rightarrow> msg list \<Rightarrow> EmailData list \<Rightarrow> world \<Rightarrow> EmailData list \<times> world" where
  "process_loop env [] all_newly_processed w = (all_newly_processed, w)"
| "process_loop env (m # ms) all_newly_processed w =
     (case process_message env m all_newly_processed w of
        (Some err, acc, w1) \<Rightarrow> (acc, w1)
      | (None, acc, w1) \<Rightarrow> process_loop env ms acc w1)"

definition process_emails :: "env \<Rightarrow> world \<Rightarrow> EmailData list \<times> world" where
  "process_emails env w =
     (case (case graph_messages env of
              Inl err \<Rightarrow> ([], w)
            | Inr messages \<Rightarrow> process_loop env messages [] w) of
        (all_newly_processed, w1) \<Rightarrow>
          if all_newly_processed \<noteq> [] then
            (all_newly_processed,
             w1\<lparr>processed_emails_pkl :=
                  save_pickle (pickle_io env ''processed_emails.pkl'' (pickles_saved w1))
                    (processed_emails w1) (processed_emails_pkl w1),
                effects := effects w1 @ [SavePickle ''processed_emails.pkl'' (processed_emails w1)]\<rparr>)
          else (all_newly_processed, w1))"

section \<open>One cycle of run_continuously\<close>

text \<open>
  The body of the \<open>while True\<close> loop without the weekly summary and the sleep, which
  only log and wait. The first component is the exception that leaves the loop, if any:
  \<open>generate_opportunities\<close> is called outside every \<open>try\<close>, so what it raises ends
  \<open>run_continuously\<close>.
\<close>

definition cycle :: "env \<Rightarrow> world \<Rightarrow> error option \<times> world" where
  "cycle env w =
     (case process_emails env w of
        (all_new_emails, w1) \<Rightarrow>
          if all_new_emails \<noteq> [] then
            (let new_leads = filter is_lead all_new_emails in
             if new_leads \<noteq> [] then
               (case generate_opportunities env (report_file w1) new_leads of
                  (Inl err, effs) \<Rightarrow> (Some err, w1\<lparr>effects := effects w1 @ effs\<rparr>)
                | (Inr opps, effs) \<Rightarrow>
                    (None, update_report env all_new_emails new_leads opps
                             (w1\<lparr>effects := effects w1 @ effs\<rparr>)))
             else (None, w1))
          else (None, w1))"

section \<open>Sample inputs\<close>

text \<open>
  Inputs for the closed examples below. \<open>sample_digest\<close> holds the MD5 digests of the
  strings that the examples hash.
\<close>

definition sample_digest :: "string \<Rightarrow> string" where
  "sample_digest s =
     (if s = ''a@x.com'' then ''743173788aa9166801df2e18f0e7ff24''
      else if s = ''a@'' then ''8994f21f20ace33fecff1e4c69cea3cf''
      else if s = ''sync|2025-03-01|10:00|a@x.com'' then ''81c83dc23a0eeb7cd94e7bfe0ffbb644''
      else ''d41d8cd98f00b204e9800998ecf8427e'')"

definition lead_answer :: parsed where
  "lead_answer = empty_parsed\<lparr>is_lead_p := Some True, lead_status_p := Some ''Proposal Sent''\<rparr>"


definition not_lead_answer :: parsed where
  "not_lead_answer = empty_parsed\<lparr>is_lead_p := Some False\<rparr>"

definition sample_lead :: "string \<Rightarrow> string \<Rightarrow> string \<Rightarrow> EmailData" where
  "sample_lead mid address ts =
     \<lparr>id_email = mid, sender_name = ''Ann'', sender_email = address, subject = ''Offer'',
      received = ts, body_preview = ''Hello'', is_lead = True, parsed_data = Some lead_answer,
      calendar_event_id = None\<rparr>"

definition sample_msg :: msg where
  "sample_msg = \<lparr>msg_id = Some ''m1'', msg_subject = Some ''Offer'', msg_from_name = Some ''Ann'',
     msg_from_address = Some ''a@x.com'', msg_receivedDateTime = Some ''2025-03-01T10:00:00Z'',
     msg_body_content = Some ''Hello''\<rparr>"

text \<open>
  A provider that answers the first POST of an event with status 500 and the later ones
  with status 201, and a classifier that accepts every message as a lead.
\<close>

definition sample_env :: env where
  "sample_env =
     \<lparr>md5_hexdigest = sample_digest, gemini_json = (\<lambda>body subj. Some lead_answer),
      gemini_summary = (\<lambda>history. ''summary''),
      graph_create_folder = (\<lambda>name. Some (''https://drive/'' @ name)),
      graph_messages = Inr [sample_msg],
      graph_post_event = (\<lambda>n. if n = 0 then Status 500 None else Status 201 (Some ''ev1'')),
      strptime_plus_hour =
        (\<lambda>s. if s = ''2025-03-01T10:00:00'' then Some ''2025-03-01T11:00:00'' else None),
      report_writable = True, pickle_io = (\<lambda>filename n. Written)\<rparr>"

definition fresh_world :: world where
  "fresh_world = \<lparr>processed_emails = {}, processed_events = {}, processed_emails_pkl = Absent,
     processed_events_pkl = Absent, report_file = None, effects = []\<rparr>"

text \<open>An interaction log with one entry for the sender, whose summary has four lines.\<close>

definition four_line_body :: string where
  "four_line_body = join [newline] [''Hello'', ''thank you for the call.'', ''Regards'', ''Ann'']"

definition one_entry_report :: "env \<Rightarrow> workbook" where
  "one_entry_report env =
     new_workbook\<lparr>interaction_log :=
       Some [interaction_headers,
             [Some (id_gen env ''a@x.com''), Some ''2025-02-01'', Some four_line_body, Some [],
              Some [], Some ''Call'', Some ''2025-02-01T09:00:00Z'']]\<rparr>"

text \<open>
  The precondition in the words of the specification: the address contains an \<open>@\<close>
  followed by a nonempty domain token, the token being the first dot-separated part of
  what follows the \<open>@\<close>.
\<close>

definition spec_at_with_domain_token :: "string \<Rightarrow> bool" where
  "spec_at_with_domain_token address =
     (case split_str (CHR ''@'') address of
        _ # domain # _ \<Rightarrow> hd (split_str (CHR ''.'') domain) \<noteq> []
      | _ \<Rightarrow> False)"

text \<open>A classifier that rejects every message.\<close>

definition rejecting_env :: env where
  "rejecting_env = sample_env\<lparr>gemini_json := (\<lambda>body subj. Some not_lead_answer)\<rparr>"

text \<open>The two kinds of effect that the order of a cycle is about.\<close>

fun is_processed_emails_save :: "effect \<Rightarrow> bool" where
  "is_processed_emails_save (SavePickle filename data) = (filename = ''processed_emails.pkl'')"
| "is_processed_emails_save other = False"

fun is_report_save :: "effect \<Rightarrow> bool" where
  "is_report_save (SaveWorkbook wb) = True"
| "is_report_save other = False"







section \<open>Evaluation rules\<close>

lemmas str_defs = lower_def lower_char_def upper_char_def is_lower_def is_upper_def
  ascii_uppercase_def ascii_lowercase_def title_def newline_def

lemmas gen_defs = generate_opportunities_def generate_step_def is_more_recent_def
  opportunity_id_of_def company_of_def method_get_def opportunities_get_def Let_def
  get_interaction_history_def create_folder_for_lead_def summarize_interactions_def
  truthy_dict_def get_or_def

section \<open>Two leads from one sender\<close>

text \<open>
  Claim C1. The claim: for two lead messages of one batch from the same sender, received
  at T1 < T2, \<open>generate_opportunities\<close> returns one opportunity whose status and
  last-contacted come from the T2 message. The code: the second message finds its
  identifier in the dictionary, the comparison of line 446 calls \<open>.get\<close> on the stored
  \<open>OpportunityData\<close>, and \<open>generate_opportunities\<close> raises \<open>AttributeError\<close>, whatever
  the hash function, the report and the other collaborators are.
\<close>

theorem two_leads_same_sender_raise:
  "fst (generate_opportunities env report
          [sample_lead ''m1'' ''a@x.com'' ''2025-03-01T10:00:00Z'',
           sample_lead ''m2'' ''a@x.com'' ''2025-03-02T10:00:00Z''])
     = Inl AttributeError"
  by (simp add: gen_defs sample_lead_def)

text \<open>
  Claim C2. The claim: for N lead messages of one batch from the same new sender the
  folder is created once and the link on the resulting opportunity does not depend on the
  message that wins. The code, for N = 2 and no report file yet: the folder is created
  for the first message, then the second message raises \<open>AttributeError\<close> and no
  opportunity results.
\<close>

theorem folder_created_then_no_opportunity:
  "generate_opportunities env None
     [sample_lead ''m1'' ''a@x.com'' ''2025-03-01T10:00:00Z'',
      sample_lead ''m2'' ''a@x.com'' ''2025-03-02T10:00:00Z'']
   = (Inl AttributeError, [CreateFolder (id_gen env ''a@x.com'')])"
  by (simp add: gen_defs sample_lead_def id_gen_def str_defs)

section \<open>The summary threshold\<close>

text \<open>
  Claim C9. The claim: \<open>summarize_interactions\<close> is called, and its result attached as
  notes, exactly when more than 3 entries of the interaction log belong to the identifier.
  The code counts the lines of the history string. With one entry in the log whose
  summary has four lines, the single lead of the batch gets the summary of the model as
  notes.
\<close>

theorem one_entry_of_four_lines_is_summarised:
  "generate_opportunities env (Some (one_entry_report env))
     [sample_lead ''m1'' ''a@x.com'' ''2025-03-01T10:00:00Z'']
   = (Inr [(id_gen env ''a@x.com'',
            \<lparr>id_opp = id_gen env ''a@x.com'', contact_name = ''Ann'', company = ''X'',
             email = ''a@x.com'', phone = [], opportunity_title = ''Opportunity with Ann'',
             lead_status = ''Proposal Sent'',
             notes_opp = gemini_summary env
               (get_interaction_history (Some (one_entry_report env)) (id_gen env ''a@x.com'')),
             last_contacted = ''2025-03-01T10:00:00Z'',
             folder_link = graph_create_folder env (''Lead-'' @ id_gen env ''a@x.com'')\<rparr>)],
      [CreateFolder (id_gen env ''a@x.com''),
       SummarizeInteractions
         (get_interaction_history (Some (one_entry_report env)) (id_gen env ''a@x.com''))])
   \<and> interaction_log (one_entry_report env)
       = Some [interaction_headers,
               [Some (id_gen env ''a@x.com''), Some ''2025-02-01'', Some four_line_body, Some [],
                Some [], Some ''Call'', Some ''2025-02-01T09:00:00Z'']]"
  by (simp add: gen_defs sample_lead_def str_defs lead_answer_def id_gen_def
      empty_parsed_def one_entry_report_def new_workbook_def row_get_def history_line_def
      str_of_cell_def four_line_body_def interaction_headers_def)

section \<open>Saving a pickle file\<close>

text \<open>
  Claim C8, as stated: a load after a crash that interrupts the save yields the old set or
  the new one. It fails: the save opens the file for writing, which empties it, before it
  dumps the set; a process that stops between the two leaves a file that \<open>load_pickle\<close>
  reads as the empty set.
\<close>

theorem interrupted_save_loads_neither_set:
  "load_pickle (save_pickle_stopped_after 1 Written {''m1'', ''m2''} (Pickled {''m1''}))
     \<notin> {load_pickle (Pickled {''m1''}), {''m1'', ''m2''}}"
  by (simp add: load_pickle_def save_pickle_stopped_after_def open_wb_def)

text \<open>
  Claim C8, amended: the save writes the file in place and swallows what its two steps
  raise. A load after a save whose two steps succeeded yields the new set; after a save
  whose \<open>open\<close> raised, what the file held before; after a save whose \<open>dump\<close> raised, and
  after a process that stopped between an \<open>open\<close> that succeeded and the \<open>dump\<close>, the empty
  set. So a load after a save that failed or was interrupted at any point yields the old
  set, the new set or the empty set.
\<close>

theorem save_pickle_in_place:
  "load_pickle (save_pickle Written data f) = data \<and>
   load_pickle (save_pickle OpenRaises data f) = load_pickle f \<and>
   load_pickle (save_pickle DumpRaises data f) = {} \<and>
   (io \<noteq> OpenRaises \<longrightarrow> load_pickle (save_pickle_stopped_after 1 io data f) = {}) \<and>
   load_pickle (save_pickle_stopped_after n io data f) \<in> {load_pickle f, {}, data}"
  by (cases io)
     (simp_all add: load_pickle_def save_pickle_stopped_after_def open_wb_def save_pickle_def
        pickle_dump_def)

theorem save_pickle_in_place_witness:
  "load_pickle (save_pickle_stopped_after 1 DumpRaises {''m1'', ''m2''} (Pickled {''m1''})) = {} \<and>
   load_pickle (save_pickle Written {''m1'', ''m2''} (Pickled {''m1''})) = {''m1'', ''m2''}"
  using save_pickle_in_place [of "{''m1'', ''m2''}" "Pickled {''m1''}" DumpRaises 1]
  by simp


section \<open>The company of an address without an at sign\<close>

lemma split_str_no_sep: "sep \<notin> set s \<Longrightarrow> split_str sep s = [s]"
  by (induction s) auto

lemma split_str_not_Nil: "split_str sep s \<noteq> []"
  by (induction s) (auto split: list.splits)

lemma split_str_single: "split_str sep s = [w] \<Longrightarrow> sep \<notin> set s"
proof (induction s arbitrary: w)
  case Nil
  then show ?case by simp
next
  case (Cons c cs)
  show ?case
  proof (cases "c = sep")
    case True
    with Cons.prems show ?thesis by (simp add: split_str_not_Nil)
  next
    case False
    with Cons.prems obtain w' where "split_str sep cs = [w']"
      by (cases "split_str sep cs") (auto simp: split_str_not_Nil)
    with Cons.IH False show ?thesis by simp
  qed
qed

lemma company_of_Inr: "company_of a = Inr c \<Longrightarrow> CHR ''@'' \<in> set a"
  by (cases "CHR ''@'' \<in> set a") (auto simp: company_of_def split_str_no_sep)

lemma company_of_no_at: "CHR ''@'' \<notin> set a \<Longrightarrow> company_of a = Inl IndexError"
  by (simp add: company_of_def split_str_no_sep)

lemma company_of_at: "CHR ''@'' \<in> set a \<Longrightarrow> \<exists>c. company_of a = Inr c"
proof -
  assume a: "CHR ''@'' \<in> set a"
  obtain x xs where x: "split_str (CHR ''@'') a = x # xs"
    using split_str_not_Nil by (cases "split_str (CHR ''@'') a") auto
  have "xs \<noteq> []" using a x split_str_single by fastforce
  then obtain d ds where "xs = d # ds" by (cases xs) auto
  with x show ?thesis
    by (cases "split_str (CHR ''.'') d") (auto simp: company_of_def split_str_not_Nil)
qed

lemma is_more_recent_eq:
  "is_more_recent opps k e = (if map_of opps k = None then Inr True else Inl AttributeError)"
  by (auto simp: is_more_recent_def method_get_def opportunities_get_def)

lemma generate_step_present:
  "map_of opps (opportunity_id_of env e) \<noteq> None \<Longrightarrow>
     generate_step env report e opps effs = (Inl AttributeError, effs)"
  by (cases "map_of opps (opportunity_id_of env e)")
     (simp_all add: generate_step_def is_more_recent_eq Let_def)

lemma generate_step_Inr:
  "generate_step env report e opps effs = (Inr opps', effs') \<Longrightarrow>
     CHR ''@'' \<in> set (sender_email e) \<and> map_of opps (opportunity_id_of env e) = None"
  by (auto simp: generate_step_def is_more_recent_eq Let_def dest: company_of_Inr
      split: if_splits sum.splits)

lemma generate_loop_Inr:
  "generate_loop env report es opps effs = (Inr r, effs') \<Longrightarrow>
     \<forall>e \<in> set es. CHR ''@'' \<in> set (sender_email e)"
proof (induction es arbitrary: opps effs)
  case Nil
  then show ?case by simp
next
  case (Cons e es)
  obtain res effs1 where st: "generate_step env report e opps effs = (res, effs1)"
    by (cases "generate_step env report e opps effs")
  show ?case
  proof (cases res)
    case (Inl err)
    with st Cons.prems show ?thesis by simp
  next
    case (Inr opps1)
    with st Cons.prems have "generate_loop env report es opps1 effs1 = (Inr r, effs')" by simp
    then have "\<forall>e \<in> set es. CHR ''@'' \<in> set (sender_email e)" by (rule Cons.IH)
    moreover have "CHR ''@'' \<in> set (sender_email e)"
      using st Inr generate_step_Inr by blast
    ultimately show ?thesis by simp
  qed
qed

text \<open>
  Claim C10, as stated: \<open>generate_opportunities\<close> returns only if every sender address
  contains an \<open>@\<close> followed by a nonempty domain token. It fails: the address \<open>a@\<close>
  has no domain token, and the batch that holds it yields an opportunity with an empty
  company, because \<open>''.split('.')\<close> is \<open>['']\<close> and the index \<open>[0]\<close> is in range.
\<close>

theorem empty_domain_token_is_accepted:
  "fst (generate_opportunities sample_env None [sample_lead ''m1'' ''a@'' ''2025-03-01T10:00:00Z''])
     = Inr [(''8994f21f'',
             \<lparr>id_opp = ''8994f21f'', contact_name = ''Ann'', company = [],
              email = ''a@'', phone = [], opportunity_title = ''Opportunity with Ann'',
              lead_status = ''Proposal Sent'', notes_opp = [],
              last_contacted = ''2025-03-01T10:00:00Z'',
              folder_link = Some ''https://drive/Lead-8994f21f''\<rparr>)]
   \<and> \<not> spec_at_with_domain_token ''a@''"
  by (simp add: gen_defs sample_lead_def sample_env_def sample_digest_def str_defs lead_answer_def
      empty_parsed_def spec_at_with_domain_token_def)

text \<open>
  Claim C10, amended: \<open>generate_opportunities\<close> returns only if every sender address of
  the batch contains an \<open>@\<close>; a lead whose address contains none, the empty address for
  one, makes it raise \<open>IndexError\<close>.
\<close>

theorem generate_opportunities_needs_at:
  "(fst (generate_opportunities env report emails) = Inr opps \<longrightarrow>
      (\<forall>e \<in> set emails. CHR ''@'' \<in> set (sender_email e))) \<and>
   (CHR ''@'' \<notin> set (sender_email e) \<longrightarrow>
      fst (generate_opportunities env report [e]) = Inl IndexError)"
proof (intro conjI impI)
  assume "fst (generate_opportunities env report emails) = Inr opps"
  then obtain effs where "generate_loop env report emails [] [] = (Inr opps, effs)"
    by (cases "generate_loop env report emails [] []") (simp add: generate_opportunities_def)
  then show "\<forall>e \<in> set emails. CHR ''@'' \<in> set (sender_email e)"
    by (rule generate_loop_Inr)
next
  assume "CHR ''@'' \<notin> set (sender_email e)"
  then have "company_of (sender_email e) = Inl IndexError" by (rule company_of_no_at)
  then show "fst (generate_opportunities env report [e]) = Inl IndexError"
    by (simp add: generate_opportunities_def generate_step_def is_more_recent_eq Let_def)
qed

theorem generate_opportunities_needs_at_witness:
  "CHR ''@'' \<in> set (sender_email (sample_lead ''m1'' ''a@'' ''2025-03-01T10:00:00Z'')) \<and>
   fst (generate_opportunities sample_env None [sample_lead ''m2'' [] ''2025-03-01T10:00:00Z''])
     = Inl IndexError"
proof -
  have h1: "fst (generate_opportunities sample_env None
                   [sample_lead ''m1'' ''a@'' ''2025-03-01T10:00:00Z''])
      = Inr [(''8994f21f'', \<lparr>id_opp = ''8994f21f'', contact_name = ''Ann'', company = [],
           email = ''a@'', phone = [], opportunity_title = ''Opportunity with Ann'',
           lead_status = ''Proposal Sent'', notes_opp = [],
           last_contacted = ''2025-03-01T10:00:00Z'',
           folder_link = Some ''https://drive/Lead-8994f21f''\<rparr>)]"
    by (simp add: gen_defs sample_lead_def sample_env_def sample_digest_def str_defs
        lead_answer_def empty_parsed_def)
  have h2: "CHR ''@'' \<notin> set (sender_email (sample_lead ''m2'' [] ''2025-03-01T10:00:00Z''))"
    by (simp add: sample_lead_def)
  from generate_opportunities_needs_at [of sample_env None "[sample_lead ''m1'' ''a@'' ''2025-03-01T10:00:00Z'']" _
        "sample_lead ''m2'' [] ''2025-03-01T10:00:00Z''"] h1 h2
  show ?thesis by simp
qed


section \<open>The identifier of an opportunity\<close>

lemma generate_single_key:
  "fst (generate_opportunities env report [e]) = Inr opps \<Longrightarrow>
     map fst opps = [opportunity_id_of env e]"
  by (auto simp: generate_opportunities_def generate_step_def is_more_recent_eq Let_def
      split: sum.splits if_splits)

text \<open>
  Claim C6. Two messages whose sender addresses are equal after lowercasing get the same
  opportunity identifier: the identifier is the first 8 characters of the digest of the
  lowercased address and of nothing else. The generator of the interaction log computes
  the same value, so the key under which \<open>generate_opportunities\<close> files a lead and the
  first cell of its interaction row agree.
\<close>

theorem same_sender_same_identifier:
  "lower (sender_email e1) = lower (sender_email e2) \<Longrightarrow>
     opportunity_id_of env e1 = opportunity_id_of env e2 \<and>
     opportunity_id_of env e1 = take 8 (md5_hexdigest env (lower (sender_email e1))) \<and>
     id_gen env (sender_email e1) = opportunity_id_of env e1 \<and>
     (\<forall>report opps. fst (generate_opportunities env report [e1]) = Inr opps \<longrightarrow>
        map fst opps = [id_gen env (sender_email e2)]) \<and>
     (logs_meeting e1 \<longrightarrow> row_get (interaction_row env e1) 0 = Some (opportunity_id_of env e2))"
proof -
  assume eq: "lower (sender_email e1) = lower (sender_email e2)"
  have a: "opportunity_id_of env e1 = opportunity_id_of env e2"
    using eq by (simp add: opportunity_id_of_def)
  have b: "id_gen env (sender_email e1) = opportunity_id_of env e1"
    by (simp add: id_gen_def opportunity_id_of_def)
  have b2: "id_gen env (sender_email e2) = opportunity_id_of env e1"
    using eq by (simp add: id_gen_def opportunity_id_of_def)
  have c: "\<forall>report opps. fst (generate_opportunities env report [e1]) = Inr opps \<longrightarrow>
        map fst opps = [id_gen env (sender_email e2)]"
    using generate_single_key b2 by simp
  have d: "logs_meeting e1 \<longrightarrow> row_get (interaction_row env e1) 0 = Some (opportunity_id_of env e2)"
    using eq by (auto simp: logs_meeting_def interaction_row_def row_get_def id_gen_def
        opportunity_id_of_def split: option.splits)
  from a b c d show ?thesis by (simp add: opportunity_id_of_def)
qed

theorem same_sender_same_identifier_witness:
  "lower ''A@X.com'' = lower ''a@x.COM'' \<and>
   opportunity_id_of sample_env (sample_lead ''m1'' ''A@X.com'' ''2025-03-01T10:00:00Z'') = ''74317378'' \<and>
   opportunity_id_of sample_env (sample_lead ''m2'' ''a@x.COM'' ''2025-03-02T10:00:00Z'') = ''74317378''"
proof -
  have h: "lower (sender_email (sample_lead ''m1'' ''A@X.com'' ''2025-03-01T10:00:00Z''))
         = lower (sender_email (sample_lead ''m2'' ''a@x.COM'' ''2025-03-02T10:00:00Z''))"
    by (simp add: sample_lead_def str_defs)
  have v: "opportunity_id_of sample_env (sample_lead ''m2'' ''a@x.COM'' ''2025-03-02T10:00:00Z'') = ''74317378''"
    by (simp add: opportunity_id_of_def sample_lead_def sample_env_def sample_digest_def str_defs)
  from same_sender_same_identifier [OF h, of sample_env] v h show ?thesis
    by (simp add: sample_lead_def)
qed


section \<open>A batch without leads\<close>

lemmas cycle_defs = cycle_def process_emails_def process_message_def email_data_of_def
  parse_email_def accepted_def wants_meeting_def truthy_flag_def save_pickle_def pickle_dump_def
  open_wb_def update_report_def updated_workbook_def ensure_sheets_exist_def new_workbook_def
  update_all_emails_log_def update_opportunities_sheet_def update_interaction_log_sheet_def
  existing_opps_def upsert_opportunity_def new_row_data_def email_log_row_def logs_meeting_def
  str_of_link_def opportunities_headers_def interaction_headers_def all_emails_headers_def

text \<open>
  Claim C4. The claim: every fetched, previously unseen message gets one row in the email
  log during the commit of its cycle, also in a batch without leads. The code calls
  \<open>update_report\<close> only under \<open>if new_leads\<close>: for a batch of one message that the
  classifier rejects, the cycle records the message as processed, saves the set of
  processed messages and leaves the report as it was, here without any file at all.
\<close>

theorem batch_without_leads_is_not_logged:
  "cycle rejecting_env fresh_world =
     (None,
      \<lparr>processed_emails = {''m1''}, processed_events = {},
       processed_emails_pkl = Pickled {''m1''}, processed_events_pkl = Absent,
       report_file = None,
       effects = [SavePickle ''processed_emails.pkl'' {''m1''}]\<rparr>)"
  by (simp add: cycle_defs rejecting_env_def sample_env_def sample_msg_def fresh_world_def
      not_lead_answer_def empty_parsed_def get_or_def)

section \<open>The order of the saves in a cycle\<close>

text \<open>
  What \<open>create_event\<close>, \<open>process_emails\<close>, \<open>generate_opportunities\<close> and \<open>update_report\<close>
  leave alone: the first two never save the report, the last two never save the set of
  processed messages.
\<close>

lemma create_event_frame:
  assumes "create_event env p a n w = (r, w1)"
  shows "(\<exists>t. effects w1 = effects w @ t \<and> (\<forall>e \<in> set t. \<not> is_report_save e))
       \<and> report_file w1 = report_file w
       \<and> processed_emails w1 = processed_emails w
       \<and> processed_emails_pkl w1 = processed_emails_pkl w"
  using assms
  by (auto simp: create_event_def Let_def
      split: option.splits if_splits sum.splits post_response.splits)

lemma process_message_frame:
  assumes "process_message env m acc w = (err, acc1, w1)"
  shows "(\<exists>t. effects w1 = effects w @ t \<and> (\<forall>e \<in> set t. \<not> is_report_save e))
       \<and> report_file w1 = report_file w
       \<and> processed_emails w \<subseteq> processed_emails w1
       \<and> ((\<forall>x \<in> set acc. id_email x \<in> processed_emails w) \<longrightarrow> (\<forall>x \<in> set acc1. id_email x \<in> processed_emails w1))
       \<and> processed_emails_pkl w1 = processed_emails_pkl w
       \<and> (acc \<noteq> [] \<longrightarrow> acc1 \<noteq> [])"
proof (cases "msg_id m")
  case None
  with assms show ?thesis by (simp add: process_message_def)
next
  case (Some email_id)
  show ?thesis
  proof (cases "email_id \<in> processed_emails w")
    case True
    with Some assms show ?thesis by (simp add: process_message_def)
  next
    case False
    let ?ed = "email_data_of email_id m"
    let ?pv = "parse_email env (body_preview ?ed) (subject ?ed)"
    show ?thesis
    proof (cases "accepted ?pv \<and> wants_meeting ?pv")
      case False
      with Some \<open>email_id \<notin> processed_emails w\<close> assms show ?thesis
        by (auto simp: process_message_def Let_def email_data_of_def split: if_splits)
    next
      case True
      obtain r w2 where ce: "create_event env ?pv (sender_email (?ed\<lparr>is_lead := True, parsed_data := ?pv\<rparr>))
          (sender_name (?ed\<lparr>is_lead := True, parsed_data := ?pv\<rparr>)) w = (r, w2)"
        by (cases "create_event env ?pv (sender_email (?ed\<lparr>is_lead := True, parsed_data := ?pv\<rparr>))
          (sender_name (?ed\<lparr>is_lead := True, parsed_data := ?pv\<rparr>)) w")
      note fr = create_event_frame [OF ce]
      show ?thesis
      proof (cases r)
        case (Inl e)
        with ce True Some \<open>email_id \<notin> processed_emails w\<close> assms fr show ?thesis
          by (simp add: process_message_def Let_def)
      next
        case (Inr ev)
        with ce True Some \<open>email_id \<notin> processed_emails w\<close> assms
        have w1: "w1 = w2\<lparr>processed_emails := insert email_id (processed_emails w2)\<rparr>"
          and acc1: "acc1 = acc @ [(?ed\<lparr>is_lead := True, parsed_data := ?pv\<rparr>)\<lparr>calendar_event_id := ev\<rparr>]"
          by (simp_all add: process_message_def Let_def)
        from fr w1 acc1 show ?thesis
          by (auto simp: email_data_of_def)
      qed
    qed
  qed
qed

lemma process_loop_frame:
  "process_loop env ms acc w = (acc1, w1) \<Longrightarrow>
     (\<exists>t. effects w1 = effects w @ t \<and> (\<forall>e \<in> set t. \<not> is_report_save e))
       \<and> report_file w1 = report_file w
       \<and> processed_emails w \<subseteq> processed_emails w1
       \<and> ((\<forall>x \<in> set acc. id_email x \<in> processed_emails w) \<longrightarrow> (\<forall>x \<in> set acc1. id_email x \<in> processed_emails w1))
       \<and> processed_emails_pkl w1 = processed_emails_pkl w"
proof (induction ms arbitrary: acc w)
  case Nil
  then show ?case by simp
next
  case (Cons m ms)
  obtain err acc2 w2 where pm: "process_message env m acc w = (err, acc2, w2)"
    by (cases "process_message env m acc w") auto
  note fr = process_message_frame [OF pm]
  show ?case
  proof (cases err)
    case (Some e)
    with pm Cons.prems have "acc1 = acc2" "w1 = w2" by simp_all
    with fr show ?thesis by simp
  next
    case None
    with pm Cons.prems have "process_loop env ms acc2 w2 = (acc1, w1)" by simp
    from Cons.IH [OF this] fr show ?thesis
      by auto
  qed
qed


lemma process_emails_frame:
  assumes "process_emails env w = (batch, w1)"
  shows "(\<exists>t. effects w1 = effects w @ t \<and> (\<forall>e \<in> set t. \<not> is_report_save e) \<and>
            (batch \<noteq> [] \<longrightarrow> t \<noteq> [] \<and> last t = SavePickle ''processed_emails.pkl'' (processed_emails w1)))
       \<and> report_file w1 = report_file w
       \<and> (\<forall>x \<in> set batch. id_email x \<in> processed_emails w1)
       \<and> (batch \<noteq> [] \<longrightarrow> (\<forall>n. pickle_io env ''processed_emails.pkl'' n = Written) \<longrightarrow>
            processed_emails_pkl w1 = Pickled (processed_emails w1))"
proof (cases "graph_messages env")
  case (Inl err)
  with assms show ?thesis by (simp add: process_emails_def)
next
  case (Inr messages)
  obtain acc w2 where pl: "process_loop env messages [] w = (acc, w2)"
    by (cases "process_loop env messages [] w")
  from process_loop_frame [OF pl]
  obtain t where t: "effects w2 = effects w @ t" "\<forall>e \<in> set t. \<not> is_report_save e"
    and rf: "report_file w2 = report_file w"
    and ids: "\<forall>x \<in> set acc. id_email x \<in> processed_emails w2"
    by auto
  show ?thesis
  proof (cases "acc = []")
    case True
    with pl Inr assms have "batch = []" "w1 = w2" by (simp_all add: process_emails_def)
    with t rf show ?thesis by simp
  next
    case False
    with pl Inr assms have b: "batch = acc"
      and w1: "w1 = w2\<lparr>processed_emails_pkl :=
                         save_pickle (pickle_io env ''processed_emails.pkl'' (pickles_saved w2))
                           (processed_emails w2) (processed_emails_pkl w2),
                effects := effects w2 @ [SavePickle ''processed_emails.pkl'' (processed_emails w2)]\<rparr>"
      by (simp_all add: process_emails_def)
    let ?t = "t @ [SavePickle ''processed_emails.pkl'' (processed_emails w1)]"
    have e1: "effects w1 = effects w @ ?t"
      using w1 t by simp
    have e2: "\<forall>e \<in> set ?t. \<not> is_report_save e"
      using t by simp
    have e3: "?t \<noteq> [] \<and> last ?t = SavePickle ''processed_emails.pkl'' (processed_emails w1)"
      by simp
    have e4: "report_file w1 = report_file w" using w1 rf by simp
    have e5: "\<forall>x \<in> set batch. id_email x \<in> processed_emails w1" using w1 b ids by simp
    have e6: "(\<forall>n. pickle_io env ''processed_emails.pkl'' n = Written) \<longrightarrow>
        processed_emails_pkl w1 = Pickled (processed_emails w1)"
      using w1 by (simp add: save_pickle_def pickle_dump_def open_wb_def)
    from e1 e2 e3 e4 e5 e6 show ?thesis by blast
  qed
qed

lemma generate_step_effects:
  "generate_step env report e opps effs = (r, effs1) \<Longrightarrow>
     \<exists>t. effs1 = effs @ t \<and> (\<forall>x \<in> set t. \<not> is_processed_emails_save x \<and> \<not> is_report_save x)"
  by (auto simp: generate_step_def is_more_recent_eq Let_def split: sum.splits if_splits)

lemma generate_loop_effects:
  "generate_loop env report es opps effs = (r, effs1) \<Longrightarrow>
     \<exists>t. effs1 = effs @ t \<and> (\<forall>x \<in> set t. \<not> is_processed_emails_save x \<and> \<not> is_report_save x)"
proof (induction es arbitrary: opps effs)
  case Nil
  then show ?case by simp
next
  case (Cons e es)
  obtain res effs2 where st: "generate_step env report e opps effs = (res, effs2)"
    by (cases "generate_step env report e opps effs")
  from generate_step_effects [OF st] obtain t1 where
    t1: "effs2 = effs @ t1" "\<forall>x \<in> set t1. \<not> is_processed_emails_save x \<and> \<not> is_report_save x"
    by auto
  show ?case
  proof (cases res)
    case (Inl err)
    with st Cons.prems t1 show ?thesis by auto
  next
    case (Inr opps1)
    with st Cons.prems have "generate_loop env report es opps1 effs2 = (r, effs1)" by simp
    from Cons.IH [OF this] obtain t2 where
      "effs1 = effs2 @ t2" "\<forall>x \<in> set t2. \<not> is_processed_emails_save x \<and> \<not> is_report_save x"
      by auto
    with t1 have "effs1 = effs @ (t1 @ t2) \<and>
        (\<forall>x \<in> set (t1 @ t2). \<not> is_processed_emails_save x \<and> \<not> is_report_save x)"
      by auto
    then show ?thesis by blast
  qed
qed

lemma update_report_frame:
  "\<exists>t. effects (update_report env all_new new_leads opps w) = effects w @ t \<and>
       (\<forall>x \<in> set t. \<not> is_processed_emails_save x)"
  "processed_emails (update_report env all_new new_leads opps w) = processed_emails w"
  "processed_emails_pkl (update_report env all_new new_leads opps w) = processed_emails_pkl w"
  by (auto simp: update_report_def split: sum.splits)

lemma process_emails_sample:
  "process_emails sample_env fresh_world =
     ([\<lparr>id_email = ''m1'', sender_name = ''Ann'', sender_email = ''a@x.com'', subject = ''Offer'',
        received = ''2025-03-01T10:00:00Z'', body_preview = ''Hello'', is_lead = True,
        parsed_data = Some lead_answer, calendar_event_id = None\<rparr>],
      \<lparr>processed_emails = {''m1''}, processed_events = {},
       processed_emails_pkl = Pickled {''m1''}, processed_events_pkl = Absent,
       report_file = None,
       effects = [SavePickle ''processed_emails.pkl'' {''m1''}]\<rparr>)"
  by (simp add: cycle_defs sample_env_def sample_msg_def fresh_world_def
      lead_answer_def empty_parsed_def get_or_def)

text \<open>
  Claim C3, as stated: in every cycle the set of processed messages is added to and saved
  only after the three sheets of the report have been committed. It fails: in the cycle
  that fetches one lead from a fresh state, the first of the three effects is the save of
  \<open>processed_emails.pkl\<close> and the last is the save of the workbook.
\<close>

theorem processed_set_saved_before_report:
  "map is_processed_emails_save (effects (snd (cycle sample_env fresh_world))) = [True, False, False] \<and>
   map is_report_save (effects (snd (cycle sample_env fresh_world))) = [False, False, True]"
  by (simp add: cycle_defs gen_defs str_defs sample_env_def sample_msg_def fresh_world_def
      lead_answer_def empty_parsed_def sample_digest_def)

text \<open>
  Claim C3, amended: \<open>process_emails\<close> adds the identifiers of the batch to the set of
  processed messages and, when the batch is not empty, saves the set as its last effect,
  without saving the report; the rest of the cycle, which generates the opportunities and
  commits the three sheets, comes after that save and neither changes nor saves the set
  again. So the set is saved before the report is committed, and where the file system
  completes the saves, the file holds the identifiers of the batch from then on.
\<close>

theorem report_saved_after_processed_set:
  assumes "process_emails env w = (batch, w1)" and "cycle env w = (r, w2)"
  shows "\<exists>first second.
           effects w1 = effects w @ first \<and> effects w2 = effects w1 @ second \<and>
           (\<forall>e \<in> set first. \<not> is_report_save e) \<and>
           (\<forall>e \<in> set second. \<not> is_processed_emails_save e) \<and>
           (batch \<noteq> [] \<longrightarrow>
              first \<noteq> [] \<and> last first = SavePickle ''processed_emails.pkl'' (processed_emails w2) \<and>
              (\<forall>x \<in> set batch. id_email x \<in> processed_emails w2) \<and>
              ((\<forall>n. pickle_io env ''processed_emails.pkl'' n = Written) \<longrightarrow>
                 processed_emails_pkl w2 = Pickled (processed_emails w2)))"
proof -
  from process_emails_frame [OF assms(1)] obtain first where
    f: "effects w1 = effects w @ first" "\<forall>e \<in> set first. \<not> is_report_save e"
       "batch \<noteq> [] \<longrightarrow> first \<noteq> [] \<and> last first = SavePickle ''processed_emails.pkl'' (processed_emails w1)"
    and ids: "\<forall>x \<in> set batch. id_email x \<in> processed_emails w1"
    and pk: "batch \<noteq> [] \<longrightarrow> (\<forall>n. pickle_io env ''processed_emails.pkl'' n = Written) \<longrightarrow>
               processed_emails_pkl w1 = Pickled (processed_emails w1)"
    by auto
  have "\<exists>second. effects w2 = effects w1 @ second \<and>
          (\<forall>e \<in> set second. \<not> is_processed_emails_save e) \<and>
          processed_emails w2 = processed_emails w1 \<and>
          processed_emails_pkl w2 = processed_emails_pkl w1"
  proof (cases "batch \<noteq> [] \<and> filter is_lead batch \<noteq> []")
    case False
    with assms have "w2 = w1" by (auto simp: cycle_def Let_def split: if_splits)
    then show ?thesis by simp
  next
    case True
    obtain res effs where g: "generate_opportunities env (report_file w1) (filter is_lead batch) = (res, effs)"
      by (cases "generate_opportunities env (report_file w1) (filter is_lead batch)")
    from g have "generate_loop env (report_file w1) (filter is_lead batch) [] [] = (res, effs)"
      by (simp add: generate_opportunities_def)
    from generate_loop_effects [OF this]
    have ge: "\<forall>x \<in> set effs. \<not> is_processed_emails_save x" by auto
    show ?thesis
    proof (cases res)
      case (Inl err)
      with g True assms have "w2 = w1\<lparr>effects := effects w1 @ effs\<rparr>"
        by (simp add: cycle_def Let_def)
      with ge show ?thesis by simp
    next
      case (Inr opps)
      with g True assms have w2: "w2 = update_report env batch (filter is_lead batch) opps
                                        (w1\<lparr>effects := effects w1 @ effs\<rparr>)"
        by (simp add: cycle_def Let_def)
      from update_report_frame(1) [of env batch "filter is_lead batch" opps "w1\<lparr>effects := effects w1 @ effs\<rparr>"]
      obtain t where "effects w2 = (effects w1 @ effs) @ t" "\<forall>x \<in> set t. \<not> is_processed_emails_save x"
        using w2 by auto
      with ge have "effects w2 = effects w1 @ (effs @ t) \<and> (\<forall>e \<in> set (effs @ t). \<not> is_processed_emails_save e)"
        by auto
      moreover have "processed_emails w2 = processed_emails w1" "processed_emails_pkl w2 = processed_emails_pkl w1"
        using w2 by (simp_all add: update_report_frame)
      ultimately show ?thesis by blast
    qed
  qed
  then obtain second where s: "effects w2 = effects w1 @ second"
      "\<forall>e \<in> set second. \<not> is_processed_emails_save e"
      "processed_emails w2 = processed_emails w1" "processed_emails_pkl w2 = processed_emails_pkl w1"
    by auto
  from f ids pk s show ?thesis by auto
qed

theorem report_saved_after_processed_set_witness:
  "fst (process_emails sample_env fresh_world) \<noteq> [] \<and>
   (\<exists>second. effects (snd (cycle sample_env fresh_world))
        = SavePickle ''processed_emails.pkl'' {''m1''} # second \<and>
      (\<forall>e \<in> set second. \<not> is_processed_emails_save e)) \<and>
   processed_emails_pkl (snd (cycle sample_env fresh_world))
     = Pickled (processed_emails (snd (cycle sample_env fresh_world)))"
proof -
  let ?b = "fst (process_emails sample_env fresh_world)"
  let ?w1 = "snd (process_emails sample_env fresh_world)"
  let ?w2 = "snd (cycle sample_env fresh_world)"
  have pe: "process_emails sample_env fresh_world = (?b, ?w1)"
    by simp
  have cy: "cycle sample_env fresh_world = (fst (cycle sample_env fresh_world), ?w2)"
    by simp
  have b: "?b \<noteq> []"
    by (simp add: process_emails_sample)
  have e1: "effects ?w1 = [SavePickle ''processed_emails.pkl'' {''m1''}]"
    by (simp add: process_emails_sample)
  from report_saved_after_processed_set [OF pe cy] obtain first second where
    s: "effects ?w2 = effects ?w1 @ second" and
    n: "\<forall>e \<in> set second. \<not> is_processed_emails_save e" and
    p: "?b \<noteq> [] \<longrightarrow> (\<forall>n. pickle_io sample_env ''processed_emails.pkl'' n = Written) \<longrightarrow>
          processed_emails_pkl ?w2 = Pickled (processed_emails ?w2)"
    by blast
  from s e1 have "effects ?w2 = SavePickle ''processed_emails.pkl'' {''m1''} # second"
    by simp
  with n have "\<exists>second. effects ?w2 = SavePickle ''processed_emails.pkl'' {''m1''} # second \<and>
      (\<forall>e \<in> set second. \<not> is_processed_emails_save e)"
    by blast
  moreover have "\<forall>n. pickle_io sample_env ''processed_emails.pkl'' n = Written"
    by (simp add: sample_env_def)
  ultimately show ?thesis using b p by blast
qed


section \<open>The upsert into the Opportunities Master sheet\<close>





















section \<open>Calls of create_event for one meeting\<close>

















end
